theory Spec2Isabelle
  imports Complex_Main
begin

section \<open>kissdsp/spatial.py: arrays, errors and the numpy operations it calls\<close>

text \<open>
  The module works on numpy arrays. An array is modelled by its shape and its indexing
  function; only the entries inside the shape are meaningful. Floating point numbers
  (float32, csingle, complex128) are idealised to the exact reals and complex numbers,
  so every statement below is about exact arithmetic.

  numpy raises IndexError for an index outside an axis, ValueError for shapes that do
  not broadcast or do not match in a matrix product, and LinAlgError from the
  eigendecomposition.
\<close>

datatype error = IndexError | ValueError | LinAlgError

record 'a ndarray2 =
  shape2 :: "nat \<times> nat"
  at2 :: "nat \<Rightarrow> nat \<Rightarrow> 'a"

record 'a ndarray1 =
  shape1 :: nat
  at1 :: "nat \<Rightarrow> 'a"

record 'a ndarray3 =
  shape3 :: "nat \<times> nat \<times> nat"
  at3 :: "nat \<Rightarrow> nat \<Rightarrow> nat \<Rightarrow> 'a"

text \<open>Sequencing of fallible steps: the first exception ends the computation.\<close>

definition bindE :: "error + 'a \<Rightarrow> ('a \<Rightarrow> error + 'b) \<Rightarrow> error + 'b" where
  "bindE m f = (case m of Inl e \<Rightarrow> Inl e | Inr x \<Rightarrow> f x)"

text \<open>The entries of an array read out as nested lists, in index order.\<close>

definition rows2 :: "'a ndarray2 \<Rightarrow> 'a list list" where
  "rows2 A = (case shape2 A of (r, c) \<Rightarrow>
     map (\<lambda>i. map (\<lambda>j. at2 A i j) [0..<c]) [0..<r])"

definition rows3 :: "'a ndarray3 \<Rightarrow> 'a list list list" where
  "rows3 A = (case shape3 A of (p, r, c) \<Rightarrow>
     map (\<lambda>b. map (\<lambda>i. map (\<lambda>j. at3 A b i j) [0..<c]) [0..<r]) [0..<p])"

text \<open>\<open>np.array\<close> of a list of rows.\<close>

definition array2 :: "'a list list \<Rightarrow> 'a ndarray2" where
  "array2 rs = \<lparr>shape2 = (length rs, (case rs of [] \<Rightarrow> 0 | r # _ \<Rightarrow> length r)),
                at2 = (\<lambda>i j. rs ! i ! j)\<rparr>"

text \<open>\<open>np.zeros\<close> and \<open>np.ones\<close>.\<close>

definition zeros2 :: "nat \<times> nat \<Rightarrow> 'a::zero ndarray2" where
  "zeros2 s = \<lparr>shape2 = s, at2 = (\<lambda>i j. 0)\<rparr>"

definition zeros3 :: "nat \<times> nat \<times> nat \<Rightarrow> 'a::zero ndarray3" where
  "zeros3 s = \<lparr>shape3 = s, at3 = (\<lambda>b i j. 0)\<rparr>"

definition ones3 :: "nat \<times> nat \<times> nat \<Rightarrow> 'a::one ndarray3" where
  "ones3 s = \<lparr>shape3 = s, at3 = (\<lambda>b i j. 1)\<rparr>"

text \<open>
  The item assignment \<open>R[i, j] = v\<close>. In \<open>rotmat\<close> the indices are the literals
  0, 1, 2 on a 3 by 3 array, so the assignment cannot leave the array.
\<close>

definition set2 :: "'a ndarray2 \<Rightarrow> nat \<Rightarrow> nat \<Rightarrow> 'a \<Rightarrow> 'a ndarray2" where
  "set2 R i j v = R\<lparr>at2 := (at2 R)(i := (at2 R i)(j := v))\<rparr>"

text \<open>
  The matrix product \<open>A @ B\<close> of two-dimensional arrays: entry \<open>(i, j)\<close> is the sum over
  the inner index of \<open>A[i, l] * B[l, j]\<close>. numpy raises ValueError when the inner
  extents differ.
\<close>

definition dot2 :: "'a::semiring_0 ndarray2 \<Rightarrow> 'a ndarray2 \<Rightarrow> 'a ndarray2" where
  "dot2 A B = \<lparr>shape2 = (fst (shape2 A), snd (shape2 B)),
               at2 = (\<lambda>i j. sum_list (map (\<lambda>l. at2 A i l * at2 B l j) [0..<snd (shape2 A)]))\<rparr>"

definition matmul :: "'a::semiring_0 ndarray2 \<Rightarrow> 'a ndarray2 \<Rightarrow> error + 'a ndarray2" where
  "matmul A B = (if snd (shape2 A) \<noteq> fst (shape2 B) then Inl ValueError else Inr (dot2 A B))"

text \<open>\<open>A.T\<close> and \<open>A.conj()\<close>.\<close>

definition transpose2 :: "'a ndarray2 \<Rightarrow> 'a ndarray2" where
  "transpose2 A = \<lparr>shape2 = (snd (shape2 A), fst (shape2 A)), at2 = (\<lambda>i j. at2 A j i)\<rparr>"

definition conj2 :: "complex ndarray2 \<Rightarrow> complex ndarray2" where
  "conj2 A = \<lparr>shape2 = shape2 A, at2 = (\<lambda>i j. cnj (at2 A i j))\<rparr>"

definition conj3 :: "complex ndarray3 \<Rightarrow> complex ndarray3" where
  "conj3 A = \<lparr>shape3 = shape3 A, at3 = (\<lambda>b i j. cnj (at3 A b i j))\<rparr>"

text \<open>
  Broadcasting. Two extents are compatible when they are equal or one of them is 1; an
  axis of extent 1 is read at index 0 whatever the index asked for.
\<close>

definition bc_dim :: "nat \<Rightarrow> nat \<Rightarrow> nat option" where
  "bc_dim m n = (if m = n then Some m else if m = 1 then Some n
                 else if n = 1 then Some m else None)"

definition bc_index :: "nat \<Rightarrow> nat \<Rightarrow> nat" where
  "bc_index n i = (if n = 1 then 0 else i)"

text \<open>The elementwise product \<open>A * B\<close>: ValueError when the shapes do not broadcast.\<close>

definition multiply2 :: "complex ndarray2 \<Rightarrow> complex ndarray2 \<Rightarrow> error + complex ndarray2" where
  "multiply2 A B = (case (shape2 A, shape2 B) of ((r1, c1), (r2, c2)) \<Rightarrow>
     (case (bc_dim r1 r2, bc_dim c1 c2) of
        (Some r, Some c) \<Rightarrow>
          Inr \<lparr>shape2 = (r, c),
               at2 = (\<lambda>i j. at2 A (bc_index r1 i) (bc_index c1 j)
                             * at2 B (bc_index r2 i) (bc_index c2 j))\<rparr>
      | _ \<Rightarrow> Inl ValueError))"

text \<open>The slice \<open>A[:, :, b]\<close>: IndexError when \<open>b\<close> is outside the last axis.\<close>

definition slice_bin :: "'a ndarray3 \<Rightarrow> nat \<Rightarrow> error + 'a ndarray2" where
  "slice_bin A b = (case shape3 A of (c, f, n) \<Rightarrow>
     if b < n then Inr \<lparr>shape2 = (c, f), at2 = (\<lambda>i j. at3 A i j b)\<rparr>
     else Inl IndexError)"

text \<open>
  The slice assignment \<open>A[b, :, :] = P\<close>: IndexError when \<open>b\<close> is outside the first
  axis, ValueError when \<open>P\<close> does not broadcast into the slice.
\<close>

definition assign_bin :: "'a ndarray3 \<Rightarrow> nat \<Rightarrow> 'a ndarray2 \<Rightarrow> error + 'a ndarray3" where
  "assign_bin A b P = (case shape3 A of (n, r, c) \<Rightarrow> (case shape2 P of (pr, pc) \<Rightarrow>
     if \<not> b < n then Inl IndexError
     else if (pr = r \<or> pr = 1) \<and> (pc = c \<or> pc = 1)
       then Inr (A\<lparr>at3 := (\<lambda>b' i j. if b' = b then at2 P (bc_index pr i) (bc_index pc j)
                                     else at3 A b' i j)\<rparr>)
       else Inl ValueError))"

section \<open>scm\<close>

text \<open>
  The body of the loop over the bins, for one \<open>bin_index\<close>, and the loop itself. The
  arrays are three-dimensional by their type; \<open>Xs\<close> is indexed
  \<open>[channel, frame, bin]\<close> and the result \<open>[bin, channel, channel]\<close>.
\<close>

definition scm_step ::
  "complex ndarray3 \<Rightarrow> complex ndarray3 \<Rightarrow> nat \<Rightarrow> complex ndarray3 \<Rightarrow> error + complex ndarray3" where
  "scm_step Xs Ms bin_index XXs =
     bindE (slice_bin Xs bin_index) (\<lambda>X.
     bindE (slice_bin Ms bin_index) (\<lambda>M.
     bindE (multiply2 X M) (\<lambda>XM.
     bindE (matmul XM (transpose2 (conj2 XM))) (\<lambda>P.
     assign_bin XXs bin_index P))))"

fun scm_loop ::
  "complex ndarray3 \<Rightarrow> complex ndarray3 \<Rightarrow> nat list \<Rightarrow> complex ndarray3 \<Rightarrow> error + complex ndarray3" where
  "scm_loop Xs Ms [] XXs = Inr XXs"
| "scm_loop Xs Ms (bin_index # rest) XXs =
     (case scm_step Xs Ms bin_index XXs of
        Inl e \<Rightarrow> Inl e
      | Inr XXs' \<Rightarrow> scm_loop Xs Ms rest XXs')"

definition scm :: "complex ndarray3 \<Rightarrow> complex ndarray3 option \<Rightarrow> error + complex ndarray3" where
  "scm Xs Ms_opt = (case shape3 Xs of (nb_of_channels, nb_of_frames, nb_of_bins) \<Rightarrow>
     (let Ms = (case Ms_opt of None \<Rightarrow> ones3 (shape3 Xs) | Some M \<Rightarrow> M);
          XXs = zeros3 (nb_of_bins, nb_of_channels, nb_of_channels)
      in scm_loop Xs Ms [0..<nb_of_bins] XXs))"

text \<open>The weight a mask gives to an entry: 1 when the mask is omitted.\<close>

definition weight :: "complex ndarray3 option \<Rightarrow> nat \<Rightarrow> nat \<Rightarrow> nat \<Rightarrow> complex" where
  "weight Ms_opt i f b = (case Ms_opt of None \<Rightarrow> 1 | Some M \<Rightarrow> at3 M i f b)"

text \<open>The result read out as nested lists, an error kept as it is.\<close>

definition result_rows :: "error + 'a ndarray3 \<Rightarrow> error + 'a list list list" where
  "result_rows r = (case r of Inl e \<Rightarrow> Inl e | Inr A \<Rightarrow> Inr (rows3 A))"

section \<open>steering\<close>

text \<open>
  \<open>np.angle(z)\<close> is \<open>arctan2(z.imag, z.real)\<close>, with values in \<open>(-pi, pi]\<close> and
  \<open>arctan2(0, 0) = 0\<close>.
\<close>

definition arctan2 :: "real \<Rightarrow> real \<Rightarrow> real" where
  "arctan2 y x =
     (if 0 < x then arctan (y / x)
      else if x < 0 then (if 0 \<le> y then arctan (y / x) + pi else arctan (y / x) - pi)
      else if 0 < y then pi / 2
      else if y < 0 then - pi / 2
      else 0)"

definition angle :: "complex \<Rightarrow> real" where
  "angle z = arctan2 (Im z) (Re z)"

text \<open>An elementwise function such as \<open>np.angle\<close>, \<open>np.exp\<close> or a scalar factor.\<close>

definition map_entries :: "('a \<Rightarrow> 'b) \<Rightarrow> 'a ndarray2 \<Rightarrow> 'b ndarray2" where
  "map_entries g A = \<lparr>shape2 = shape2 A, at2 = (\<lambda>i j. g (at2 A i j))\<rparr>"

text \<open>
  The eigendecomposition of one matrix is the library's (LAPACK behind
  \<open>np.linalg.eigh\<close>) and is a parameter of the model: for a square matrix it either
  raises or returns the eigenvalues \<open>w\<close> and the matrix \<open>V\<close> whose column \<open>V[:, k]\<close>
  belongs to \<open>w[k]\<close>, both as indexing functions. \<open>np.linalg.eigh\<close> on a stack checks
  that the matrices are square, decomposes each \<open>XXs[b]\<close> and stacks the results
  with shapes \<open>(n, c)\<close> and \<open>(n, c, c)\<close>.
\<close>

type_synonym decomposition = "(nat \<Rightarrow> real) \<times> (nat \<Rightarrow> nat \<Rightarrow> complex)"

type_synonym eigh_routine = "complex ndarray2 \<Rightarrow> error + decomposition"

definition matrix_at :: "'a ndarray3 \<Rightarrow> nat \<Rightarrow> 'a ndarray2" where
  "matrix_at A b = (case shape3 A of (n, r, c) \<Rightarrow> \<lparr>shape2 = (r, c), at2 = at3 A b\<rparr>)"

fun eigh_bins :: "eigh_routine \<Rightarrow> complex ndarray3 \<Rightarrow> nat list \<Rightarrow> error + decomposition list" where
  "eigh_bins eigh XXs [] = Inr []"
| "eigh_bins eigh XXs (b # bs) =
     (case eigh (matrix_at XXs b) of
        Inl e \<Rightarrow> Inl e
      | Inr d \<Rightarrow> (case eigh_bins eigh XXs bs of
                    Inl e \<Rightarrow> Inl e
                  | Inr ds \<Rightarrow> Inr (d # ds)))"

definition linalg_eigh ::
  "eigh_routine \<Rightarrow> complex ndarray3 \<Rightarrow> error + (real ndarray2 \<times> complex ndarray3)" where
  "linalg_eigh eigh XXs = (case shape3 XXs of (n, r, c) \<Rightarrow>
     if r \<noteq> c then Inl LinAlgError
     else bindE (eigh_bins eigh XXs [0..<n]) (\<lambda>ds.
       Inr (\<lparr>shape2 = (n, c), at2 = (\<lambda>b k. fst (ds ! b) k)\<rparr>,
            \<lparr>shape3 = (n, c, c), at3 = (\<lambda>b i k. snd (ds ! b) i k)\<rparr>)))"

text \<open>\<open>A[:, :, -1]\<close>: the last index of the last axis, IndexError on an empty axis.\<close>

definition take_last :: "'a ndarray3 \<Rightarrow> error + 'a ndarray2" where
  "take_last A = (case shape3 A of (n, r, c) \<Rightarrow>
     if c = 0 then Inl IndexError
     else Inr \<lparr>shape2 = (n, r), at2 = (\<lambda>b i. at3 A b i (c - 1))\<rparr>)"

text \<open>\<open>A[:, 0]\<close>.\<close>

definition column0 :: "'a ndarray2 \<Rightarrow> error + 'a ndarray1" where
  "column0 A = (case shape2 A of (n, c) \<Rightarrow>
     if c = 0 then Inl IndexError else Inr \<lparr>shape1 = n, at1 = (\<lambda>b. at2 A b 0)\<rparr>)"

text \<open>\<open>np.expand_dims\<close> of a one-dimensional array, along axis 1 and along axis 0.\<close>

definition expand_dims_1 :: "'a ndarray1 \<Rightarrow> 'a ndarray2" where
  "expand_dims_1 v = \<lparr>shape2 = (shape1 v, 1), at2 = (\<lambda>i j. at1 v i)\<rparr>"

definition expand_dims_0 :: "'a ndarray1 \<Rightarrow> 'a ndarray2" where
  "expand_dims_0 v = \<lparr>shape2 = (1, shape1 v), at2 = (\<lambda>i j. at1 v j)\<rparr>"

text \<open>\<open>np.tile(A, (1, reps))\<close>: the columns of \<open>A\<close> repeated \<open>reps\<close> times.\<close>

definition tile_cols :: "'a ndarray2 \<Rightarrow> nat \<Rightarrow> 'a ndarray2" where
  "tile_cols A reps = (case shape2 A of (n, m) \<Rightarrow>
     \<lparr>shape2 = (n, m * reps), at2 = (\<lambda>i j. at2 A i (j mod m))\<rparr>)"

text \<open>
  The in-place division \<open>A /= D\<close>: \<open>D\<close> must broadcast to the shape of \<open>A\<close>. numpy does
  not raise on a zero divisor; in \<open>steering\<close> the divisor is an exponential.
\<close>

definition idivide2 :: "complex ndarray2 \<Rightarrow> complex ndarray2 \<Rightarrow> error + complex ndarray2" where
  "idivide2 A D = (case shape2 A of (r, c) \<Rightarrow> (case shape2 D of (dr, dc) \<Rightarrow>
     if (dr = r \<or> dr = 1) \<and> (dc = c \<or> dc = 1)
     then Inr \<lparr>shape2 = (r, c),
               at2 = (\<lambda>i j. at2 A i j / at2 D (bc_index dr i) (bc_index dc j))\<rparr>
     else Inl ValueError))"

definition steering :: "eigh_routine \<Rightarrow> complex ndarray3 \<Rightarrow> error + complex ndarray2" where
  "steering eigh XXs = (case shape3 XXs of (nb_of_bins, nb_of_channels, _) \<Rightarrow>
     bindE (linalg_eigh eigh XXs) (\<lambda>(ws, Vs).
     bindE (take_last Vs) (\<lambda>vs.
     bindE (column0 vs) (\<lambda>v0.
     (let v0s = tile_cols (expand_dims_1 v0) nb_of_channels
      in idivide2 vs
           (map_entries exp (map_entries (\<lambda>t. \<i> * complex_of_real t)
              (map_entries angle v0s))))))))"

text \<open>
  What the specification asks of the eigendecomposition of a matrix \<open>A\<close>: the
  eigenvalues ascend, and column \<open>k\<close> of \<open>V\<close> is an eigenvector for \<open>w k\<close>.
\<close>

definition eigen_pair :: "complex ndarray2 \<Rightarrow> real \<Rightarrow> (nat \<Rightarrow> complex) \<Rightarrow> bool" where
  "eigen_pair A lam v =
     list_all (\<lambda>i. sum_list (map (\<lambda>j. at2 A i j * v j) [0..<snd (shape2 A)])
                    = complex_of_real lam * v i) [0..<fst (shape2 A)]"

definition ascending :: "(nat \<Rightarrow> real) \<Rightarrow> nat \<Rightarrow> bool" where
  "ascending w n = sorted (map w [0..<n])"

definition eigh_contract :: "complex ndarray2 \<Rightarrow> decomposition \<Rightarrow> bool" where
  "eigh_contract A d = (case d of (w, V) \<Rightarrow>
     ascending w (fst (shape2 A))
     \<and> list_all (\<lambda>k. eigen_pair A (w k) (\<lambda>i. V i k)) [0..<fst (shape2 A)])"

section \<open>freefield\<close>

text \<open>
  \<open>int(frame_size/2)\<close> divides as floats and truncates towards zero;
  \<open>np.arange(0, n)\<close> is empty for \<open>n \<le> 0\<close>.
\<close>

definition int_half :: "int \<Rightarrow> int" where
  "int_half n = (if 0 \<le> n then n div 2 else - ((- n) div 2))"

definition arange :: "int \<Rightarrow> int ndarray1" where
  "arange n = \<lparr>shape1 = nat n, at1 = (\<lambda>i. int i)\<rparr>"

definition array1 :: "'a list \<Rightarrow> 'a ndarray1" where
  "array1 xs = \<lparr>shape1 = length xs, at1 = (\<lambda>i. xs ! i)\<rparr>"

text \<open>
  \<open>np.expand_dims\<close> of a two-dimensional array along axis 2 and along axis 1, and the
  matrix product of two stacks, bin by bin.
\<close>

definition expand_last :: "'a ndarray2 \<Rightarrow> 'a ndarray3" where
  "expand_last A = (case shape2 A of (n, m) \<Rightarrow>
     \<lparr>shape3 = (n, m, 1), at3 = (\<lambda>b i j. at2 A b i)\<rparr>)"

definition expand_mid :: "'a ndarray2 \<Rightarrow> 'a ndarray3" where
  "expand_mid A = (case shape2 A of (n, m) \<Rightarrow>
     \<lparr>shape3 = (n, 1, m), at3 = (\<lambda>b i j. at2 A b j)\<rparr>)"

definition dot3 :: "'a::semiring_0 ndarray3 \<Rightarrow> 'a ndarray3 \<Rightarrow> 'a ndarray3" where
  "dot3 A B = (case shape3 A of (n, r, k) \<Rightarrow> (case shape3 B of (n', k', c) \<Rightarrow>
     \<lparr>shape3 = (n, r, c),
      at3 = (\<lambda>b i j. sum_list (map (\<lambda>l. at3 A b i l * at3 B b l j) [0..<k]))\<rparr>))"

text \<open>
  \<open>-1j * 2.0 * np.pi * K @ T / frame_size\<close> associates to the left: the scalar times
  the column \<open>K\<close> of bin indices, then the product with the row \<open>T\<close> of delays, then the
  division. Both products have inner extent 1 on either side, and the two stacks have
  the same number of bins, so no shape error can arise. With \<open>frame_size = 0\<close> numpy
  divides by zero without raising and every entry is nan; exact arithmetic has no such
  value and the model returns \<open>None\<close> for that call.
\<close>

definition freefield :: "real ndarray1 \<Rightarrow> int \<Rightarrow> complex ndarray3 option" where
  "freefield tdoas frame_size =
     (let nb_of_channels = shape1 tdoas;
          nb_of_bins = int_half frame_size + 1;
          ks = arange nb_of_bins;
          K = map_entries (\<lambda>k. - \<i> * 2 * complex_of_real pi * of_int k) (expand_dims_1 ks);
          T = map_entries complex_of_real (expand_dims_0 tdoas)
      in if frame_size = 0 then None
         else (let As = map_entries exp
                          (map_entries (\<lambda>z. z / of_int frame_size) (dot2 K T));
                   AAs = dot3 (expand_last As) (conj3 (expand_mid As))
               in Some AAs))"

text \<open>The ideal plane-wave response \<open>A[k, c]\<close> of the specification.\<close>

definition plane_wave :: "real ndarray1 \<Rightarrow> int \<Rightarrow> nat \<Rightarrow> nat \<Rightarrow> complex" where
  "plane_wave tdoas N k c =
     exp (- \<i> * 2 * complex_of_real pi * of_nat k * complex_of_real (at1 tdoas c) / of_int N)"

text \<open>
  When \<open>scm\<close> accepts a mask of shape \<open>sm\<close> for a signal of shape \<open>sx\<close> with at least
  one bin: the channel extent of the mask is that of the signal or 1, and the frame
  extents are equal or one of them is 1.
\<close>

definition mask_fits :: "nat \<times> nat \<times> nat \<Rightarrow> nat \<times> nat \<times> nat \<Rightarrow> bool" where
  "mask_fits sx sm = (case sx of (C, F, B) \<Rightarrow> (case sm of (Cm, Fm, Bm) \<Rightarrow>
     (Cm = C \<or> Cm = 1) \<and> (Fm = F \<or> Fm = 1 \<or> F = 1)))"

section \<open>rotmat\<close>

definition rotmat :: "real \<Rightarrow> real \<Rightarrow> real \<Rightarrow> real ndarray2" where
  "rotmat yaw pitch roll =
    (let R = zeros2 (3, 3);
         alpha = yaw;
         beta = pitch;
         gamma = roll;
         R = set2 R 0 0 (cos beta * cos gamma);
         R = set2 R 0 1 (sin alpha * sin beta * cos gamma - cos alpha * sin gamma);
         R = set2 R 0 2 (cos alpha * sin beta * cos gamma + sin alpha * sin gamma);
         R = set2 R 1 0 (cos beta * sin gamma);
         R = set2 R 1 1 (sin alpha * sin beta * sin gamma + cos alpha * cos gamma);
         R = set2 R 1 2 (cos alpha * sin beta * sin gamma - sin alpha * cos gamma);
         R = set2 R 2 0 (- sin beta);
         R = set2 R 2 1 (sin alpha * cos beta);
         R = set2 R 2 2 (cos alpha * cos beta)
     in R)"

text \<open>
  The elementary rotations about the coordinate axes, the identity matrix and the
  determinant of a 3 by 3 matrix, as the specification uses them.
\<close>

definition Rx :: "real \<Rightarrow> real ndarray2" where
  "Rx t = array2 [[1, 0, 0], [0, cos t, - sin t], [0, sin t, cos t]]"

definition Ry :: "real \<Rightarrow> real ndarray2" where
  "Ry t = array2 [[cos t, 0, sin t], [0, 1, 0], [- sin t, 0, cos t]]"

definition Rz :: "real \<Rightarrow> real ndarray2" where
  "Rz t = array2 [[cos t, - sin t, 0], [sin t, cos t, 0], [0, 0, 1]]"

definition identity3 :: "real list list" where
  "identity3 = [[1, 0, 0], [0, 1, 0], [0, 0, 1]]"

definition det3 :: "real ndarray2 \<Rightarrow> real" where
  "det3 R =
     at2 R 0 0 * (at2 R 1 1 * at2 R 2 2 - at2 R 1 2 * at2 R 2 1)
   - at2 R 0 1 * (at2 R 1 0 * at2 R 2 2 - at2 R 1 2 * at2 R 2 0)
   + at2 R 0 2 * (at2 R 1 0 * at2 R 2 1 - at2 R 1 1 * at2 R 2 0)"

section \<open>Example inputs\<close>

text \<open>\<open>np.array\<close> of a nested list indexed \<open>[channel][frame][bin]\<close>.\<close>

definition array3 :: "'a list list list \<Rightarrow> 'a ndarray3" where
  "array3 xs = \<lparr>shape3 = (length xs, (case xs of [] \<Rightarrow> 0 | r # _ \<Rightarrow> length r),
                   (case xs of [] \<Rightarrow> 0 | r # _ \<Rightarrow> (case r of [] \<Rightarrow> 0 | c # _ \<Rightarrow> length c))),
                at3 = (\<lambda>i j k. xs ! i ! j ! k)\<rparr>"

text \<open>A signal of two channels, two frames and one bin, and a mask of the same shape.\<close>

definition example_signal :: "complex ndarray3" where
  "example_signal = array3 [[[\<i>], [1]], [[2], [0]]]"

definition example_mask :: "complex ndarray3" where
  "example_mask = array3 [[[1], [2]], [[1], [0]]]"

text \<open>
  Eigendecomposition routines for the examples: each knows the decomposition of one
  two by two matrix (eigenvalues ascending, eigenvectors of norm 1 in the columns) and
  fails on any other input.
\<close>

definition eigh_table :: "complex list list \<Rightarrow> decomposition \<Rightarrow> eigh_routine" where
  "eigh_table rs d A = (if rows2 A = rs then Inr d else Inl LinAlgError)"

definition eigh_fours :: eigh_routine where
  "eigh_fours = eigh_table [[4, 4], [4, 4]]
     ((\<lambda>k. if k = 0 then 0 else 8),
      (\<lambda>i k. (if i = 1 \<and> k = 0 then - 1 else 1) / complex_of_real (sqrt 2)))"

definition eigh_phase :: eigh_routine where
  "eigh_phase = eigh_table [[1, - \<i>], [\<i>, 1]]
     ((\<lambda>k. if k = 0 then 0 else 2),
      (\<lambda>i k. (if k = 0 then (if i = 0 then 1 else - \<i>) else (if i = 0 then \<i> else - 1))
               / complex_of_real (sqrt 2)))"

definition eigh_zero :: eigh_routine where
  "eigh_zero = eigh_table [[0, 0], [0, 0]]
     ((\<lambda>k. 0), (\<lambda>i k. if i = k then 1 else 0))"

section \<open>Facts about rotmat\<close>

lemma upt_3: "[0..<3] = [0, 1, 2]"
  by (simp add: upt_rec)

lemma rotmat_shape: "shape2 (rotmat yaw pitch roll) = (3, 3)"
  by (simp add: rotmat_def Let_def set2_def zeros2_def)

lemma rotmat_rows:
  "rows2 (rotmat yaw pitch roll) =
    [[cos pitch * cos roll,
      sin yaw * sin pitch * cos roll - cos yaw * sin roll,
      cos yaw * sin pitch * cos roll + sin yaw * sin roll],
     [cos pitch * sin roll,
      sin yaw * sin pitch * sin roll + cos yaw * cos roll,
      cos yaw * sin pitch * sin roll - sin yaw * cos roll],
     [- sin pitch, sin yaw * cos pitch, cos yaw * cos pitch]]"
  by (simp add: rows2_def rotmat_def Let_def set2_def zeros2_def upt_3)

lemma rotmat_at:
  "at2 (rotmat yaw pitch roll) 0 0 = cos pitch * cos roll"
  "at2 (rotmat yaw pitch roll) 0 1 = sin yaw * sin pitch * cos roll - cos yaw * sin roll"
  "at2 (rotmat yaw pitch roll) 0 2 = cos yaw * sin pitch * cos roll + sin yaw * sin roll"
  "at2 (rotmat yaw pitch roll) 1 0 = cos pitch * sin roll"
  "at2 (rotmat yaw pitch roll) 1 1 = sin yaw * sin pitch * sin roll + cos yaw * cos roll"
  "at2 (rotmat yaw pitch roll) 1 2 = cos yaw * sin pitch * sin roll - sin yaw * cos roll"
  "at2 (rotmat yaw pitch roll) 2 0 = - sin pitch"
  "at2 (rotmat yaw pitch roll) 2 1 = sin yaw * cos pitch"
  "at2 (rotmat yaw pitch roll) 2 2 = cos yaw * cos pitch"
  by (simp_all add: rotmat_def Let_def set2_def zeros2_def)

text \<open>The product of the three elementary rotations, entry by entry.\<close>

lemma Rz_Ry_Rx_rows:
  "rows2 (dot2 (Rz c) (dot2 (Ry b) (Rx a))) =
    [[cos b * cos c,
      sin a * sin b * cos c - cos a * sin c,
      cos a * sin b * cos c + sin a * sin c],
     [cos b * sin c,
      sin a * sin b * sin c + cos a * cos c,
      cos a * sin b * sin c - sin a * cos c],
     [- sin b, sin a * cos b, cos a * cos b]]"
  by (simp add: rows2_def dot2_def Rx_def Ry_def Rz_def array2_def upt_3 algebra_simps)

text \<open>
  What \<open>rotmat\<close> computes: the closed form of \<open>Rz(gamma) Ry(beta) Rx(alpha)\<close>, in which
  \<open>alpha\<close> turns about X and \<open>gamma\<close> about Z. The function binds \<open>alpha\<close> to the yaw
  and \<open>gamma\<close> to the roll, so the yaw turns about X and the roll about Z.
\<close>

lemma rotmat_composition:
  "rows2 (rotmat yaw pitch roll) = rows2 (dot2 (Rz roll) (dot2 (Ry pitch) (Rx yaw)))"
  by (simp only: rotmat_rows Rz_Ry_Rx_rows)

text \<open>
  Claim C1 says that \<open>rotmat yaw pitch roll\<close> is \<open>Rz(yaw) Ry(pitch) Rx(roll)\<close>, the yaw
  turning about Z. The code does not do that: for a yaw of a quarter turn and no pitch
  or roll it returns the quarter turn about X, where \<open>Rz(pi/2) Ry(0) Rx(0)\<close> is the
  quarter turn about Z.
\<close>

theorem rotmat_quarter_yaw_turns_about_x:
  "rows2 (rotmat (pi / 2) 0 0) = [[1, 0, 0], [0, 0, - 1], [0, 1, 0]]
   \<and> rows2 (dot2 (Rz (pi / 2)) (dot2 (Ry 0) (Rx 0))) = [[0, - 1, 0], [1, 0, 0], [0, 0, 1]]
   \<and> rows2 (rotmat (pi / 2) 0 0) \<noteq> rows2 (dot2 (Rz (pi / 2)) (dot2 (Ry 0) (Rx 0)))"
  by (simp add: rotmat_rows Rz_Ry_Rx_rows)

text \<open>
  Claim C8: for all angles the matrix \<open>R\<close> returned by \<open>rotmat\<close> is orthogonal,
  \<open>R R\<^sup>T = I\<close>, and its determinant is 1.
\<close>

theorem rotmat_orthogonal_det_one:
  "rows2 (dot2 (rotmat yaw pitch roll) (transpose2 (rotmat yaw pitch roll))) = identity3
   \<and> det3 (rotmat yaw pitch roll) = 1"
proof -
  have a: "(sin yaw)\<^sup>2 + (cos yaw)\<^sup>2 = 1"
    and b: "(sin pitch)\<^sup>2 + (cos pitch)\<^sup>2 = 1"
    and c: "(sin roll)\<^sup>2 + (cos roll)\<^sup>2 = 1"
    by simp_all
  have "rows2 (dot2 (rotmat yaw pitch roll) (transpose2 (rotmat yaw pitch roll))) = identity3"
    unfolding rows2_def dot2_def transpose2_def identity3_def
    apply (simp add: rotmat_shape upt_3 rotmat_at rotmat_at [unfolded One_nat_def])
    using a b c
    apply (intro conjI)
            apply algebra+
    done
  moreover have "det3 (rotmat yaw pitch roll) = 1"
    unfolding det3_def rotmat_at using a b c by algebra
  ultimately show ?thesis by simp
qed

section \<open>Facts about scm\<close>

lemma bc_index_id: "i < n \<Longrightarrow> bc_index n i = i"
  by (auto simp: bc_index_def)

lemma scm_step_fail_index:
  assumes "shape3 Ms = (Cm, Fm, Bm)" "\<not> b < Bm" "shape3 Xs = (C, F, B)" "b < B"
  shows "scm_step Xs Ms b XXs = Inl IndexError"
  using assms by (simp add: scm_step_def slice_bin_def bindE_def)

lemma scm_step_fail_shape:
  assumes "shape3 Xs = (C, F, B)" "shape3 Ms = (Cm, Fm, Bm)" "shape3 XXs = (B, C, C)"
    "b < B" "b < Bm" "\<not> mask_fits (C, F, B) (Cm, Fm, Bm)"
  shows "scm_step Xs Ms b XXs = Inl ValueError"
  using assms
  by (auto simp: scm_step_def slice_bin_def bindE_def multiply2_def bc_dim_def matmul_def
      transpose2_def conj2_def dot2_def assign_bin_def mask_fits_def split: if_splits)

lemma scm_step_ok:
  assumes "shape3 Xs = (C, F, B)" "shape3 Ms = (Cm, Fm, Bm)" "shape3 XXs = (B, C, C)"
    "b < B" "b < Bm" "mask_fits (C, F, B) (Cm, Fm, Bm)"
  shows "\<exists>XXs'. scm_step Xs Ms b XXs = Inr XXs' \<and> shape3 XXs' = (B, C, C)
     \<and> (\<forall>b' i j. b' \<noteq> b \<longrightarrow> at3 XXs' b' i j = at3 XXs b' i j)"
  using assms
  by (auto simp: scm_step_def slice_bin_def bindE_def multiply2_def bc_dim_def matmul_def
      transpose2_def conj2_def dot2_def assign_bin_def mask_fits_def split: if_splits)

lemma scm_step_same_shape:
  assumes "shape3 Xs = (C, F, B)" "shape3 Ms = (C, F, B)" "shape3 XXs = (B, C, C)" "b < B"
  shows "\<exists>XXs'. scm_step Xs Ms b XXs = Inr XXs' \<and> shape3 XXs' = (B, C, C)
     \<and> (\<forall>b' i j. i < C \<longrightarrow> j < C \<longrightarrow> at3 XXs' b' i j =
          (if b' = b
           then (\<Sum>f<F. (at3 Xs i f b * at3 Ms i f b) * cnj (at3 Xs j f b * at3 Ms j f b))
           else at3 XXs b' i j))"
  using assms
  apply (simp add: scm_step_def slice_bin_def bindE_def multiply2_def bc_dim_def matmul_def
      transpose2_def conj2_def dot2_def assign_bin_def)
  apply (simp add: bc_index_id interv_sum_list_conv_sum_set_nat atLeast0LessThan)
  done


lemma scm_loop_same_shape:
  assumes "shape3 Xs = (C, F, B)" "shape3 Ms = (C, F, B)"
  shows "shape3 XXs = (B, C, C) \<Longrightarrow> \<forall>b\<in>set bs. b < B \<Longrightarrow>
    \<exists>XXs'. scm_loop Xs Ms bs XXs = Inr XXs' \<and> shape3 XXs' = (B, C, C)
     \<and> (\<forall>b' i j. i < C \<longrightarrow> j < C \<longrightarrow> at3 XXs' b' i j =
          (if b' \<in> set bs
           then (\<Sum>f<F. (at3 Xs i f b' * at3 Ms i f b') * cnj (at3 Xs j f b' * at3 Ms j f b'))
           else at3 XXs b' i j))"
proof (induction bs arbitrary: XXs)
  case Nil
  then show ?case by simp
next
  case (Cons b bs)
  from Cons.prems have b: "b < B" and bs: "\<forall>b\<in>set bs. b < B" by simp_all
  from scm_step_same_shape [OF assms Cons.prems(1) b]
  obtain Y where Y: "scm_step Xs Ms b XXs = Inr Y" "shape3 Y = (B, C, C)"
    and Yat: "\<And>b' i j. i < C \<Longrightarrow> j < C \<Longrightarrow> at3 Y b' i j =
          (if b' = b
           then (\<Sum>f<F. (at3 Xs i f b * at3 Ms i f b) * cnj (at3 Xs j f b * at3 Ms j f b))
           else at3 XXs b' i j)"
    by blast
  from Cons.IH [OF Y(2) bs]
  obtain Z where Z: "scm_loop Xs Ms bs Y = Inr Z" "shape3 Z = (B, C, C)"
    and Zat: "\<And>b' i j. i < C \<Longrightarrow> j < C \<Longrightarrow> at3 Z b' i j =
          (if b' \<in> set bs
           then (\<Sum>f<F. (at3 Xs i f b' * at3 Ms i f b') * cnj (at3 Xs j f b' * at3 Ms j f b'))
           else at3 Y b' i j)"
    by blast
  have "scm_loop Xs Ms (b # bs) XXs = Inr Z" using Y(1) Z(1) by simp
  moreover have "\<forall>b' i j. i < C \<longrightarrow> j < C \<longrightarrow> at3 Z b' i j =
          (if b' \<in> set (b # bs)
           then (\<Sum>f<F. (at3 Xs i f b' * at3 Ms i f b') * cnj (at3 Xs j f b' * at3 Ms j f b'))
           else at3 XXs b' i j)"
    by (simp add: Zat Yat)
  ultimately show ?case using Z(2) by blast
qed

lemma scm_loop_fits:
  assumes "shape3 Xs = (C, F, B)" "shape3 Ms = (Cm, Fm, Bm)" "mask_fits (C, F, B) (Cm, Fm, Bm)"
  shows "shape3 XXs = (B, C, C) \<Longrightarrow> \<forall>b\<in>set bs. b < B \<and> b < Bm \<Longrightarrow>
    \<exists>XXs'. scm_loop Xs Ms bs XXs = Inr XXs' \<and> shape3 XXs' = (B, C, C)"
proof (induction bs arbitrary: XXs)
  case Nil
  then show ?case by simp
next
  case (Cons b bs)
  from Cons.prems have b: "b < B" "b < Bm" and bs: "\<forall>b\<in>set bs. b < B \<and> b < Bm" by simp_all
  from scm_step_ok [OF assms(1,2) Cons.prems(1) b assms(3)]
  obtain Y where Y: "scm_step Xs Ms b XXs = Inr Y" "shape3 Y = (B, C, C)" by blast
  from Cons.IH [OF Y(2) bs] Y(1) show ?case by simp
qed

lemma scm_loop_fails:
  assumes "shape3 Xs = (C, F, B)" "shape3 Ms = (Cm, Fm, Bm)"
  shows "shape3 XXs = (B, C, C) \<Longrightarrow> \<forall>b\<in>set bs. b < B \<Longrightarrow> bs \<noteq> [] \<Longrightarrow>
    \<not> mask_fits (C, F, B) (Cm, Fm, Bm) \<or> (\<exists>b\<in>set bs. \<not> b < Bm) \<Longrightarrow>
    scm_loop Xs Ms bs XXs = Inl IndexError \<or> scm_loop Xs Ms bs XXs = Inl ValueError"
proof (induction bs arbitrary: XXs)
  case Nil
  then show ?case by simp
next
  case (Cons b bs)
  from Cons.prems have b: "b < B" and bs: "\<forall>b\<in>set bs. b < B" by simp_all
  show ?case
  proof (cases "b < Bm")
    case False
    from scm_step_fail_index [OF assms(2) False assms(1) b] show ?thesis by simp
  next
    case True
    show ?thesis
    proof (cases "mask_fits (C, F, B) (Cm, Fm, Bm)")
      case False
      from scm_step_fail_shape [OF assms Cons.prems(1) b True False] show ?thesis by simp
    next
      case fits: True
      from scm_step_ok [OF assms Cons.prems(1) b True fits]
      obtain Y where Y: "scm_step Xs Ms b XXs = Inr Y" "shape3 Y = (B, C, C)" by blast
      from Cons.prems(4) fits True have ex: "\<exists>b\<in>set bs. \<not> b < Bm" by simp
      then have ne: "bs \<noteq> []" by auto
      from Cons.IH [OF Y(2) bs ne] ex Y(1) show ?thesis by simp
    qed
  qed
qed

lemma scm_same_shape:
  assumes "shape3 Xs = (C, F, B)"
    and "case Ms of None \<Rightarrow> True | Some M \<Rightarrow> shape3 M = shape3 Xs"
  shows "\<exists>XXs. scm Xs Ms = Inr XXs \<and> shape3 XXs = (B, C, C)
     \<and> (\<forall>b i j. b < B \<longrightarrow> i < C \<longrightarrow> j < C \<longrightarrow> at3 XXs b i j =
          (\<Sum>f<F. (at3 Xs i f b * weight Ms i f b) * cnj (at3 Xs j f b * weight Ms j f b)))"
proof -
  define M where "M = (case Ms of None \<Rightarrow> ones3 (shape3 Xs) | Some M \<Rightarrow> M)"
  have sM: "shape3 M = (C, F, B)"
    using assms by (simp add: M_def ones3_def split: option.splits)
  have w: "\<And>i f b. weight Ms i f b = at3 M i f b"
    by (simp add: weight_def M_def ones3_def split: option.splits)
  have z: "shape3 (zeros3 (B, C, C) :: complex ndarray3) = (B, C, C)"
    by (simp add: zeros3_def)
  have bs: "\<forall>b\<in>set [0..<B]. b < B" by simp
  from scm_loop_same_shape [OF assms(1) sM z bs]
  obtain Z where Z: "scm_loop Xs M [0..<B] (zeros3 (B, C, C)) = Inr Z" "shape3 Z = (B, C, C)"
    and Zat: "\<And>b' i j. i < C \<Longrightarrow> j < C \<Longrightarrow> at3 Z b' i j =
          (if b' \<in> set [0..<B]
           then (\<Sum>f<F. (at3 Xs i f b' * at3 M i f b') * cnj (at3 Xs j f b' * at3 M j f b'))
           else at3 (zeros3 (B, C, C)) b' i j)"
    by blast
  have "scm Xs Ms = Inr Z"
    using Z(1) assms(1) by (simp add: scm_def M_def)
  then show ?thesis using Z(2) Zat by (simp add: w)
qed

text \<open>
  Claim C2: for a signal \<open>Xs\<close> of shape \<open>[C, F, B]\<close> and a mask of the same shape, or
  no mask (all weights 1), \<open>scm\<close> returns an array of shape \<open>[B, C, C]\<close> whose entry
  \<open>[b][i][j]\<close> is the sum over the frames \<open>f\<close> of
  \<open>(X[i][f][b] M[i][f][b]) conj(X[j][f][b] M[j][f][b])\<close>, with no division by the
  number of frames; the all-ones signal of two channels, four frames and one bin gives
  \<open>[[4, 4], [4, 4]]\<close> at bin 0.
\<close>

theorem scm_entries:
  assumes "shape3 Xs = (C, F, B)"
    and "case Ms of None \<Rightarrow> True | Some M \<Rightarrow> shape3 M = shape3 Xs"
  shows "(\<exists>XXs. scm Xs Ms = Inr XXs \<and> shape3 XXs = (B, C, C)
     \<and> (\<forall>b<B. \<forall>i<C. \<forall>j<C. at3 XXs b i j =
          (\<Sum>f<F. (at3 Xs i f b * weight Ms i f b) * cnj (at3 Xs j f b * weight Ms j f b))))
   \<and> result_rows (scm (ones3 (2, 4, 1)) None) = Inr [[[4, 4], [4, 4]]]"
proof
  from scm_same_shape [OF assms]
  show "\<exists>XXs. scm Xs Ms = Inr XXs \<and> shape3 XXs = (B, C, C)
     \<and> (\<forall>b<B. \<forall>i<C. \<forall>j<C. at3 XXs b i j =
          (\<Sum>f<F. (at3 Xs i f b * weight Ms i f b) * cnj (at3 Xs j f b * weight Ms j f b)))"
    by blast
next
  have s: "shape3 (ones3 (2, 4, 1) :: complex ndarray3) = (2, 4, 1)"
    by (simp add: ones3_def)
  from scm_same_shape [OF s, of None]
  obtain XXs where X: "scm (ones3 (2, 4, 1)) None = Inr XXs" "shape3 XXs = (1, 2, 2)"
    and at: "\<And>b i j. b < 1 \<Longrightarrow> i < 2 \<Longrightarrow> j < 2 \<Longrightarrow> at3 XXs b i j =
      (\<Sum>f<4. (at3 (ones3 (2, 4, 1)) i f b * weight None i f b)
              * cnj (at3 (ones3 (2, 4, 1)) j f b * weight None j f b))"
    by auto
  have "rows3 XXs = [[[4, 4], [4, 4]]]"
    by (simp add: rows3_def X(2) upt_rec at ones3_def weight_def)
  then show "result_rows (scm (ones3 (2, 4, 1)) None) = Inr [[[4, 4], [4, 4]]]"
    unfolding result_rows_def X(1) by simp
qed

theorem scm_entries_witness:
  "result_rows (scm example_signal (Some example_mask)) = Inr [[[5, 2 * \<i>], [- 2 * \<i>, 4]]]"
proof -
  have s: "shape3 example_signal = (2, 2, 1)"
    by (simp add: example_signal_def array3_def)
  have m: "case Some example_mask of None \<Rightarrow> True | Some M \<Rightarrow> shape3 M = shape3 example_signal"
    by (simp add: example_signal_def example_mask_def array3_def)
  from scm_entries [OF s m]
  obtain XXs where X: "scm example_signal (Some example_mask) = Inr XXs" "shape3 XXs = (1, 2, 2)"
    and at: "\<And>b i j. b < 1 \<Longrightarrow> i < 2 \<Longrightarrow> j < 2 \<Longrightarrow> at3 XXs b i j =
      (\<Sum>f<2. (at3 example_signal i f b * weight (Some example_mask) i f b)
              * cnj (at3 example_signal j f b * weight (Some example_mask) j f b))"
    by auto
  have "rows3 XXs = [[[5, 2 * \<i>], [- 2 * \<i>, 4]]]"
    by (simp add: rows3_def X(2) upt_rec at weight_def example_signal_def example_mask_def
        array3_def eval_nat_numeral)
  then show ?thesis
    unfolding result_rows_def X(1) by simp
qed

text \<open>
  Claim C7: for a signal of shape \<open>[C, F, B]\<close> and a mask of the same shape, or no
  mask, every bin of the result of \<open>scm\<close> is Hermitian:
  \<open>XX[b][i][j] = conj(XX[b][j][i])\<close> for every bin and every pair of channels.
\<close>

theorem scm_hermitian:
  assumes "shape3 Xs = (C, F, B)"
    and "case Ms of None \<Rightarrow> True | Some M \<Rightarrow> shape3 M = shape3 Xs"
  shows "\<exists>XXs. scm Xs Ms = Inr XXs \<and> shape3 XXs = (B, C, C)
     \<and> (\<forall>b<B. \<forall>i<C. \<forall>j<C. at3 XXs b i j = cnj (at3 XXs b j i))"
proof -
  from scm_same_shape [OF assms]
  obtain XXs where X: "scm Xs Ms = Inr XXs" "shape3 XXs = (B, C, C)"
    and at: "\<And>b i j. b < B \<Longrightarrow> i < C \<Longrightarrow> j < C \<Longrightarrow> at3 XXs b i j =
      (\<Sum>f<F. (at3 Xs i f b * weight Ms i f b) * cnj (at3 Xs j f b * weight Ms j f b))"
    by blast
  have "at3 XXs b i j = cnj (at3 XXs b j i)" if "b < B" "i < C" "j < C" for b i j
    using that by (simp add: at mult.commute)
  with X show ?thesis by blast
qed

theorem scm_hermitian_witness:
  "\<exists>XXs. scm example_signal (Some example_mask) = Inr XXs
     \<and> at3 XXs 0 0 1 = cnj (at3 XXs 0 1 0) \<and> at3 XXs 0 1 0 = - 2 * \<i>"
proof -
  have s: "shape3 example_signal = (2, 2, 1)"
    by (simp add: example_signal_def array3_def)
  have m: "case Some example_mask of None \<Rightarrow> True | Some M \<Rightarrow> shape3 M = shape3 example_signal"
    by (simp add: example_signal_def example_mask_def array3_def)
  from scm_hermitian [OF s m]
  obtain XXs where X: "scm example_signal (Some example_mask) = Inr XXs"
    and h: "\<And>b i j. b < 1 \<Longrightarrow> i < 2 \<Longrightarrow> j < 2 \<Longrightarrow> at3 XXs b i j = cnj (at3 XXs b j i)"
    by auto
  from scm_same_shape [OF s m] X
  have "at3 XXs 0 1 0 = (\<Sum>f<2. (at3 example_signal 1 f 0 * weight (Some example_mask) 1 f 0)
              * cnj (at3 example_signal 0 f 0 * weight (Some example_mask) 0 f 0))"
    by auto
  then have "at3 XXs 0 1 0 = - 2 * \<i>"
    by (simp add: weight_def example_signal_def example_mask_def array3_def eval_nat_numeral)
  with X h [of 0 0 1] show ?thesis by simp
qed

text \<open>
  Claim C6 says that \<open>scm\<close> fails for every mask whose shape differs from the
  signal's. The function has no shape check, and numpy broadcasts: a mask of shape
  \<open>(1, 1, 1)\<close> on the all-ones signal of shape \<open>(2, 4, 1)\<close> is accepted and the
  result is that of the unmasked signal.
\<close>

theorem scm_broadcast_mask_counterexample:
  "shape3 (ones3 (1, 1, 1) :: complex ndarray3) \<noteq> shape3 (ones3 (2, 4, 1) :: complex ndarray3)
   \<and> result_rows (scm (ones3 (2, 4, 1)) (Some (ones3 (1, 1, 1)))) = Inr [[[4, 4], [4, 4]]]"
  by (simp add: result_rows_def scm_def ones3_def zeros3_def scm_step_def slice_bin_def
      bindE_def multiply2_def bc_dim_def bc_index_def matmul_def dot2_def transpose2_def
      conj2_def assign_bin_def rows3_def upt_rec)

text \<open>
  Claim C6 as amended: \<open>scm\<close> checks no shape itself, and a call with a mask of shape
  \<open>(Cm, Fm, Bm)\<close> on a signal of shape \<open>(C, F, B)\<close> fails (with the IndexError or
  ValueError of the numpy operation) exactly when the signal has a bin and either the
  mask has fewer bins than the signal, or \<open>Cm\<close> is neither \<open>C\<close> nor 1, or \<open>Fm\<close> and
  \<open>F\<close> differ and neither is 1. Every other mask is accepted and broadcast.
\<close>

theorem scm_mask_failure:
  assumes "shape3 Xs = (C, F, B)" and "shape3 M = (Cm, Fm, Bm)"
  shows "if 0 < B \<and> (Bm < B \<or> \<not> mask_fits (C, F, B) (Cm, Fm, Bm))
         then scm Xs (Some M) = Inl IndexError \<or> scm Xs (Some M) = Inl ValueError
         else (\<exists>XXs. scm Xs (Some M) = Inr XXs \<and> shape3 XXs = (B, C, C))"
proof (cases "0 < B \<and> (Bm < B \<or> \<not> mask_fits (C, F, B) (Cm, Fm, Bm))")
  case True
  have z: "shape3 (zeros3 (B, C, C) :: complex ndarray3) = (B, C, C)"
    by (simp add: zeros3_def)
  have bs: "\<forall>b\<in>set [0..<B]. b < B" by simp
  from True have ne: "[0..<B] \<noteq> []" by simp
  from True have bad: "\<not> mask_fits (C, F, B) (Cm, Fm, Bm) \<or> (\<exists>b\<in>set [0..<B]. \<not> b < Bm)"
    by auto
  from scm_loop_fails [OF assms z bs ne bad]
  have "scm Xs (Some M) = Inl IndexError \<or> scm Xs (Some M) = Inl ValueError"
    using assms(1) by (simp add: scm_def)
  with True show ?thesis by simp
next
  case False
  have z: "shape3 (zeros3 (B, C, C) :: complex ndarray3) = (B, C, C)"
    by (simp add: zeros3_def)
  have "\<exists>XXs. scm Xs (Some M) = Inr XXs \<and> shape3 XXs = (B, C, C)"
  proof (cases "B = 0")
    case True
    then show ?thesis using assms(1) by (simp add: scm_def zeros3_def)
  next
    case nz: False
    with False have fits: "mask_fits (C, F, B) (Cm, Fm, Bm)" and le: "B \<le> Bm" by auto
    from le have bs: "\<forall>b\<in>set [0..<B]. b < B \<and> b < Bm" by simp
    from scm_loop_fits [OF assms fits z bs]
    show ?thesis using assms(1) by (auto simp: scm_def)
  qed
  with False show ?thesis by auto
qed

theorem scm_mask_failure_witness:
  "(scm (ones3 (2, 4, 1)) (Some (ones3 (3, 4, 1))) = Inl IndexError
      \<or> scm (ones3 (2, 4, 1)) (Some (ones3 (3, 4, 1))) = Inl ValueError)
   \<and> (scm (ones3 (2, 4, 2)) (Some (ones3 (2, 4, 1))) = Inl IndexError
      \<or> scm (ones3 (2, 4, 2)) (Some (ones3 (2, 4, 1))) = Inl ValueError)
   \<and> (\<exists>XXs. scm (ones3 (2, 4, 1)) (Some (ones3 (2, 1, 3))) = Inr XXs \<and> shape3 XXs = (1, 2, 2))"
proof -
  have "scm (ones3 (2, 4, 1)) (Some (ones3 (3, 4, 1))) = Inl IndexError
      \<or> scm (ones3 (2, 4, 1)) (Some (ones3 (3, 4, 1))) = Inl ValueError"
    using scm_mask_failure [of "ones3 (2, 4, 1)" 2 4 1 "ones3 (3, 4, 1)" 3 4 1]
    by (simp add: ones3_def mask_fits_def)
  moreover have "scm (ones3 (2, 4, 2)) (Some (ones3 (2, 4, 1))) = Inl IndexError
      \<or> scm (ones3 (2, 4, 2)) (Some (ones3 (2, 4, 1))) = Inl ValueError"
    using scm_mask_failure [of "ones3 (2, 4, 2)" 2 4 2 "ones3 (2, 4, 1)" 2 4 1]
    by (simp add: ones3_def mask_fits_def)
  moreover have "\<exists>XXs. scm (ones3 (2, 4, 1)) (Some (ones3 (2, 1, 3))) = Inr XXs
      \<and> shape3 XXs = (1, 2, 2)"
    using scm_mask_failure [of "ones3 (2, 4, 1)" 2 4 1 "ones3 (2, 1, 3)" 2 1 3]
    by (simp add: ones3_def mask_fits_def)
  ultimately show ?thesis by blast
qed

section \<open>Facts about steering\<close>

lemma sqrt_one_plus_ratio:
  fixes x y :: real
  assumes "x \<noteq> 0"
  shows "sqrt (1 + (y / x)\<^sup>2) = sqrt (x\<^sup>2 + y\<^sup>2) / \<bar>x\<bar>"
proof -
  have "1 + (y / x)\<^sup>2 = (x\<^sup>2 + y\<^sup>2) / x\<^sup>2"
    using assms by (simp add: field_simps power2_eq_square)
  then show ?thesis
    by (simp add: real_sqrt_divide)
qed

lemma arctan2_polar:
  fixes x y :: real
  shows "sqrt (x\<^sup>2 + y\<^sup>2) * cos (arctan2 y x) = x
       \<and> sqrt (x\<^sup>2 + y\<^sup>2) * sin (arctan2 y x) = y"
proof (cases "x = 0")
  case True
  then show ?thesis by (auto simp: arctan2_def)
next
  case False
  then have r: "sqrt (x\<^sup>2 + y\<^sup>2) \<noteq> 0"
    by (simp add: sum_power2_eq_zero_iff)
  have c: "cos (arctan (y / x)) = \<bar>x\<bar> / sqrt (x\<^sup>2 + y\<^sup>2)"
    using False by (simp add: cos_arctan sqrt_one_plus_ratio)
  have s: "sin (arctan (y / x)) = (y / x) * \<bar>x\<bar> / sqrt (x\<^sup>2 + y\<^sup>2)"
    using False by (simp add: sin_arctan sqrt_one_plus_ratio)
  show ?thesis
  proof (cases "0 < x")
    case True
    then show ?thesis using r by (simp add: arctan2_def c s)
  next
    case neg: False
    with False have "x < 0" by simp
    then show ?thesis using r by (simp add: arctan2_def c s)
  qed
qed

lemma angle_polar: "z = of_real (cmod z) * exp (\<i> * complex_of_real (angle z))"
proof -
  have "exp (\<i> * complex_of_real (angle z)) = cis (angle z)"
    by (simp add: cis_conv_exp)
  moreover have "z = of_real (cmod z) * cis (angle z)"
    using arctan2_polar [of "Re z" "Im z"]
    by (simp add: complex_eq_iff cmod_def angle_def)
  ultimately show ?thesis by simp
qed

lemma divide_by_phase: "z / exp (\<i> * complex_of_real (angle z)) = of_real (cmod z)"
proof -
  have "exp (\<i> * complex_of_real (angle z)) \<noteq> 0" by simp
  then show ?thesis
    using angle_polar [of z] by (metis nonzero_mult_div_cancel_right)
qed

lemma angle_zero: "angle 0 = 0"
  by (simp add: angle_def arctan2_def)

lemma eigh_bins_ok:
  "\<forall>b\<in>set bs. eigh (matrix_at XXs b) = Inr (d b) \<Longrightarrow>
   eigh_bins eigh XXs bs = Inr (map d bs)"
  by (induction bs) simp_all

lemma steering_result:
  assumes "shape3 XXs = (B, C, C)" and "0 < C"
    and "\<forall>b<B. eigh (matrix_at XXs b) = Inr (w b, V b)"
  shows "\<exists>vs. steering eigh XXs = Inr vs \<and> shape2 vs = (B, C)
     \<and> (\<forall>b c. b < B \<longrightarrow> c < C \<longrightarrow>
          at2 vs b c = V b c (C - 1) / exp (\<i> * complex_of_real (angle (V b 0 (C - 1)))))"
proof -
  have "\<forall>b\<in>set [0..<B]. eigh (matrix_at XXs b) = Inr (w b, V b)"
    using assms(3) by simp
  then have e: "eigh_bins eigh XXs [0..<B] = Inr (map (\<lambda>b. (w b, V b)) [0..<B])"
    by (rule eigh_bins_ok)
  show ?thesis
    using assms(1,2)
    by (simp add: steering_def linalg_eigh_def e bindE_def take_last_def column0_def
        tile_cols_def expand_dims_1_def map_entries_def idivide2_def bc_index_id)
qed

text \<open>
  Claim C3: whenever the eigendecomposition returns at every bin (as it does for a
  Hermitian positive-semidefinite stack) and there is at least one channel (so also for
  two or more), \<open>steering\<close> returns, and in every bin every component of its output
  is the selected eigenvector's component divided by \<open>exp(i angle(v[0]))\<close>, the phase
  factor of the vector's own first component, which has magnitude 1. The first channel
  of the output is then the modulus of \<open>v[0]\<close>: its phase is zero, its imaginary part
  is zero and its real part is not negative.
\<close>

theorem steering_first_channel_phase_zero:
  assumes "shape3 XXs = (B, C, C)" and "0 < C"
    and "\<forall>b<B. eigh (matrix_at XXs b) = Inr (w b, V b)"
  shows "\<exists>vs. steering eigh XXs = Inr vs \<and> shape2 vs = (B, C)
     \<and> (\<forall>b<B. cmod (exp (\<i> * complex_of_real (angle (V b 0 (C - 1))))) = 1
           \<and> (\<forall>c<C. at2 vs b c =
                 V b c (C - 1) / exp (\<i> * complex_of_real (angle (V b 0 (C - 1)))))
           \<and> at2 vs b 0 = complex_of_real (cmod (V b 0 (C - 1)))
           \<and> Im (at2 vs b 0) = 0 \<and> 0 \<le> Re (at2 vs b 0))"
proof -
  from steering_result [OF assms]
  obtain vs where vs: "steering eigh XXs = Inr vs" "shape2 vs = (B, C)"
    and at: "\<And>b c. b < B \<Longrightarrow> c < C \<Longrightarrow>
          at2 vs b c = V b c (C - 1) / exp (\<i> * complex_of_real (angle (V b 0 (C - 1))))"
    by blast
  have "cmod (exp (\<i> * complex_of_real (angle (V b 0 (C - 1))))) = 1
      \<and> (\<forall>c<C. at2 vs b c = V b c (C - 1) / exp (\<i> * complex_of_real (angle (V b 0 (C - 1)))))
      \<and> at2 vs b 0 = complex_of_real (cmod (V b 0 (C - 1)))
      \<and> Im (at2 vs b 0) = 0 \<and> 0 \<le> Re (at2 vs b 0)" if b: "b < B" for b
  proof -
    have unit: "cmod (exp (\<i> * complex_of_real (angle (V b 0 (C - 1))))) = 1"
      by (simp add: cis_conv_exp [symmetric])
    have every: "\<forall>c<C. at2 vs b c =
        V b c (C - 1) / exp (\<i> * complex_of_real (angle (V b 0 (C - 1))))"
      using at [OF b] by blast
    have first: "at2 vs b 0 = complex_of_real (cmod (V b 0 (C - 1)))"
      unfolding at [OF b assms(2)] by (rule divide_by_phase)
    have "Im (at2 vs b 0) = 0" "0 \<le> Re (at2 vs b 0)"
      unfolding first by simp_all
    with unit every first show ?thesis by blast
  qed
  with vs show ?thesis by blast
qed

lemma upt_2: "[0..<2] = [0, 1]"
  by (simp add: upt_rec)

theorem steering_first_channel_phase_zero_witness:
  "\<exists>vs. steering eigh_phase (array3 [[[1, - \<i>], [\<i>, 1]]]) = Inr vs \<and> shape2 vs = (1, 2)
     \<and> at2 vs 0 0 = 1 / complex_of_real (sqrt 2)
     \<and> at2 vs 0 1 = \<i> / complex_of_real (sqrt 2)
     \<and> Im (at2 vs 0 0) = 0 \<and> 0 \<le> Re (at2 vs 0 0)"
proof -
  let ?w = "\<lambda>(b::nat) (k::nat). if k = 0 then 0 else (2::real)"
  let ?V = "\<lambda>(b::nat) (i::nat) (k::nat).
     (if k = 0 then (if i = 0 then 1 else - \<i>) else (if i = 0 then \<i> else - 1))
       / complex_of_real (sqrt 2)"
  have s: "shape3 (array3 [[[1, - \<i>], [\<i>, 1]]]) = (1, 2, 2)"
    by (simp add: array3_def)
  have e: "\<forall>b<1. eigh_phase (matrix_at (array3 [[[1, - \<i>], [\<i>, 1]]]) b) = Inr (?w b, ?V b)"
    by (simp add: eigh_phase_def eigh_table_def matrix_at_def array3_def rows2_def upt_2)
  from steering_first_channel_phase_zero [OF s _ e]
  obtain vs where vs: "steering eigh_phase (array3 [[[1, - \<i>], [\<i>, 1]]]) = Inr vs"
      "shape2 vs = (1, 2)"
    and every: "\<forall>c<2. at2 vs 0 c = ?V 0 c (2 - 1) / exp (\<i> * complex_of_real (angle (?V 0 0 (2 - 1))))"
    and first: "at2 vs 0 0 = complex_of_real (cmod (?V 0 0 (2 - 1)))"
    and ph: "Im (at2 vs 0 0) = 0" "0 \<le> Re (at2 vs 0 0)"
    by auto
  have a: "angle (\<i> / complex_of_real (sqrt 2)) = pi / 2"
    by (simp add: angle_def arctan2_def)
  have x: "exp (\<i> * complex_of_real (pi / 2)) = \<i>"
    by (simp only: cis_conv_exp [symmetric] cis_pi_half)
  from first have v0: "at2 vs 0 0 = 1 / complex_of_real (sqrt 2)"
    by (simp add: norm_divide)
  from every have "at2 vs 0 1 = (- 1 / complex_of_real (sqrt 2))
       / exp (\<i> * complex_of_real (angle (\<i> / complex_of_real (sqrt 2))))"
    by simp
  then have v1: "at2 vs 0 1 = \<i> / complex_of_real (sqrt 2)"
    unfolding a x by (simp add: field_simps)
  from vs v0 v1 ph show ?thesis by blast
qed

lemma ascending_last:
  assumes "ascending w n" and "k < n"
  shows "w k \<le> w (n - 1)"
proof -
  from assms(1) have "sorted (map w [0..<n])" by (simp add: ascending_def)
  from sorted_nth_mono [OF this, of k "n - 1"] assms(2) show ?thesis by simp
qed

lemma eigen_pair_scaled:
  assumes "eigen_pair A lam v" and "shape2 A = (n, n)"
    and "\<And>i. i < n \<Longrightarrow> u i = v i / e"
  shows "eigen_pair A lam u"
proof -
  have "sum_list (map (\<lambda>j. at2 A i j * u j) [0..<n]) = complex_of_real lam * u i"
    if "i < n" for i
  proof -
    have "map (\<lambda>j. (at2 A i j * v j) * inverse e) [0..<n] = map (\<lambda>j. at2 A i j * u j) [0..<n]"
      by (rule map_cong) (simp_all add: assms(3) divide_inverse)
    then have "sum_list (map (\<lambda>j. at2 A i j * u j) [0..<n])
        = sum_list (map (\<lambda>j. (at2 A i j * v j) * inverse e) [0..<n])"
      by (rule arg_cong [where f = sum_list, symmetric])
    also have "\<dots> = sum_list (map (\<lambda>j. at2 A i j * v j) [0..<n]) * inverse e"
      by (simp only: sum_list_mult_const)
    also have "sum_list (map (\<lambda>j. at2 A i j * v j) [0..<n]) = complex_of_real lam * v i"
      using assms(1,2) that by (simp add: eigen_pair_def list_all_iff)
    finally show ?thesis
      using that by (simp add: assms(3) divide_inverse)
  qed
  then show ?thesis
    using assms(2) by (simp add: eigen_pair_def list_all_iff)
qed

text \<open>
  Claim C4: \<open>steering\<close> takes, at each bin, the last column of the eigenvector matrix
  that the eigendecomposition returns. When the routine returns the eigenvalues in
  ascending order with column \<open>k\<close> an eigenvector for eigenvalue \<open>k\<close>, the last
  eigenvalue is the largest one, the output is that last column divided by a phase
  factor, and the output is an eigenvector of \<open>XX[b]\<close> for the largest eigenvalue.
\<close>

theorem steering_selects_largest_eigenvalue:
  assumes "shape3 XXs = (B, C, C)" and "0 < C"
    and "\<forall>b<B. eigh (matrix_at XXs b) = Inr (w b, V b)
            \<and> eigh_contract (matrix_at XXs b) (w b, V b)"
  shows "\<exists>vs. steering eigh XXs = Inr vs \<and> shape2 vs = (B, C)
     \<and> (\<forall>b<B. (\<forall>k<C. w b k \<le> w b (C - 1))
           \<and> (\<forall>c<C. at2 vs b c =
                 V b c (C - 1) / exp (\<i> * complex_of_real (angle (V b 0 (C - 1)))))
           \<and> eigen_pair (matrix_at XXs b) (w b (C - 1)) (at2 vs b))"
proof -
  from assms(3) have e: "\<forall>b<B. eigh (matrix_at XXs b) = Inr (w b, V b)" by simp
  from steering_result [OF assms(1,2) e]
  obtain vs where vs: "steering eigh XXs = Inr vs" "shape2 vs = (B, C)"
    and at: "\<And>b c. b < B \<Longrightarrow> c < C \<Longrightarrow>
          at2 vs b c = V b c (C - 1) / exp (\<i> * complex_of_real (angle (V b 0 (C - 1))))"
    by blast
  have "(\<forall>k<C. w b k \<le> w b (C - 1))
      \<and> (\<forall>c<C. at2 vs b c = V b c (C - 1) / exp (\<i> * complex_of_real (angle (V b 0 (C - 1)))))
      \<and> eigen_pair (matrix_at XXs b) (w b (C - 1)) (at2 vs b)" if b: "b < B" for b
  proof -
    have sh: "shape2 (matrix_at XXs b) = (C, C)"
      using assms(1) by (simp add: matrix_at_def)
    from assms(3) b have c: "eigh_contract (matrix_at XXs b) (w b, V b)" by simp
    then have asc: "ascending (w b) C"
      and ep: "eigen_pair (matrix_at XXs b) (w b (C - 1)) (\<lambda>i. V b i (C - 1))"
      using assms(2) by (simp_all add: eigh_contract_def sh list_all_iff)
    have "eigen_pair (matrix_at XXs b) (w b (C - 1)) (at2 vs b)"
    proof (rule eigen_pair_scaled [OF ep sh])
      fix i assume "i < C"
      then show "at2 vs b i =
          V b i (C - 1) / exp (\<i> * complex_of_real (angle (V b 0 (C - 1))))"
        by (rule at [OF b])
    qed
    moreover have "\<forall>k<C. w b k \<le> w b (C - 1)"
      using asc by (blast intro: ascending_last)
    moreover have "\<forall>c<C. at2 vs b c =
        V b c (C - 1) / exp (\<i> * complex_of_real (angle (V b 0 (C - 1))))"
      using at [OF b] by blast
    ultimately show ?thesis by blast
  qed
  with vs show ?thesis by blast
qed

theorem steering_selects_largest_eigenvalue_witness:
  "\<exists>vs. steering eigh_fours (array3 [[[4, 4], [4, 4]]]) = Inr vs
     \<and> at2 vs 0 0 = 1 / complex_of_real (sqrt 2) \<and> at2 vs 0 1 = 1 / complex_of_real (sqrt 2)
     \<and> eigen_pair (matrix_at (array3 [[[4, 4], [4, 4]]]) 0) 8 (at2 vs 0)"
proof -
  let ?w = "\<lambda>(b::nat) (k::nat). if k = 0 then 0 else (8::real)"
  let ?V = "\<lambda>(b::nat) (i::nat) (k::nat).
     (if i = 1 \<and> k = 0 then - 1 else 1) / complex_of_real (sqrt 2)"
  have s: "shape3 (array3 [[[4, 4], [4, 4 :: complex]]]) = (1, 2, 2)"
    by (simp add: array3_def)
  have e: "\<forall>b<1. eigh_fours (matrix_at (array3 [[[4, 4], [4, 4]]]) b) = Inr (?w b, ?V b)
            \<and> eigh_contract (matrix_at (array3 [[[4, 4], [4, 4]]]) b) (?w b, ?V b)"
    by (simp add: eigh_fours_def eigh_table_def matrix_at_def array3_def rows2_def upt_2
        eigh_contract_def ascending_def eigen_pair_def)
  from steering_selects_largest_eigenvalue [OF s _ e]
  obtain vs where vs: "steering eigh_fours (array3 [[[4, 4], [4, 4]]]) = Inr vs"
    and at: "\<forall>c<2. at2 vs 0 c = ?V 0 c (2 - 1) / exp (\<i> * complex_of_real (angle (?V 0 0 (2 - 1))))"
    and ep: "eigen_pair (matrix_at (array3 [[[4, 4], [4, 4]]]) 0) (?w 0 (2 - 1)) (at2 vs 0)"
    by auto
  have a: "angle (1 / complex_of_real (sqrt 2)) = 0"
    by (simp add: angle_def arctan2_def)
  from at have "at2 vs 0 0 = 1 / complex_of_real (sqrt 2)" "at2 vs 0 1 = 1 / complex_of_real (sqrt 2)"
    by (simp_all add: a)
  with vs ep show ?thesis by simp
qed

text \<open>
  Claim C10: when the selected eigenvector of some bin has first component zero (as
  for an all-zero correlation matrix), \<open>steering\<close> does not fail: the angle of zero
  is 0, the divisor is \<open>exp(i 0) = 1\<close>, and the vector of that bin is returned
  unchanged.
\<close>

theorem steering_zero_first_component:
  assumes "shape3 XXs = (B, C, C)" and "0 < C"
    and "\<forall>b<B. eigh (matrix_at XXs b) = Inr (w b, V b)"
    and "b0 < B" and "V b0 0 (C - 1) = 0"
  shows "\<exists>vs. steering eigh XXs = Inr vs \<and> shape2 vs = (B, C)
     \<and> exp (\<i> * complex_of_real (angle (V b0 0 (C - 1)))) = 1
     \<and> (\<forall>c<C. at2 vs b0 c = V b0 c (C - 1))"
proof -
  from steering_result [OF assms(1,2,3)]
  obtain vs where vs: "steering eigh XXs = Inr vs" "shape2 vs = (B, C)"
    and at: "\<And>b c. b < B \<Longrightarrow> c < C \<Longrightarrow>
          at2 vs b c = V b c (C - 1) / exp (\<i> * complex_of_real (angle (V b 0 (C - 1))))"
    by blast
  have one: "exp (\<i> * complex_of_real (angle (V b0 0 (C - 1)))) = 1"
    using assms(5) by (simp add: angle_zero)
  have "\<forall>c<C. at2 vs b0 c = V b0 c (C - 1)"
  proof (intro allI impI)
    fix c assume "c < C"
    from at [OF assms(4) this]
    show "at2 vs b0 c = V b0 c (C - 1)" by (simp only: one div_by_1)
  qed
  with vs one show ?thesis by blast
qed

theorem steering_zero_first_component_witness:
  "\<exists>vs. steering eigh_zero (zeros3 (1, 2, 2)) = Inr vs \<and> shape2 vs = (1, 2)
     \<and> at2 vs 0 0 = 0 \<and> at2 vs 0 1 = 1"
proof -
  let ?w = "\<lambda>(b::nat) (k::nat). 0 :: real"
  let ?V = "\<lambda>(b::nat) (i::nat) (k::nat). if i = k then 1 else 0 :: complex"
  have s: "shape3 (zeros3 (1, 2, 2) :: complex ndarray3) = (1, 2, 2)"
    by (simp add: zeros3_def)
  have e: "\<forall>b<1. eigh_zero (matrix_at (zeros3 (1, 2, 2)) b) = Inr (?w b, ?V b)"
    by (simp add: eigh_zero_def eigh_table_def matrix_at_def zeros3_def rows2_def upt_2)
  have z: "?V 0 0 (2 - 1) = 0" by simp
  from steering_zero_first_component [OF s _ e _ z]
  obtain vs where "steering eigh_zero (zeros3 (1, 2, 2)) = Inr vs" "shape2 vs = (1, 2)"
    "\<forall>c<2. at2 vs 0 c = ?V 0 c (2 - 1)"
    by auto
  then show ?thesis by simp
qed

section \<open>Facts about freefield\<close>

lemma upt_1: "[0..<1] = [0]"
  by (simp add: upt_rec)

lemma freefield_result:
  assumes "N \<noteq> 0"
  shows "\<exists>AAs. freefield tdoas N = Some AAs
     \<and> shape3 AAs = (nat (int_half N + 1), shape1 tdoas, shape1 tdoas)
     \<and> (\<forall>k i j. at3 AAs k i j = plane_wave tdoas N k i * cnj (plane_wave tdoas N k j))"
  using assms
  by (simp add: freefield_def Let_def arange_def expand_dims_1_def expand_dims_0_def
      map_entries_def dot2_def dot3_def expand_last_def expand_mid_def conj3_def
      plane_wave_def upt_1)

text \<open>
  Claim C5: for a vector of delays of length \<open>C\<close> and an even positive frame size
  \<open>N\<close>, \<open>freefield\<close> returns an array of shape \<open>[B, C, C]\<close> with \<open>B = N/2 + 1\<close> whose
  entry \<open>[k][i][j]\<close> is \<open>A[k][i] conj(A[k][j])\<close>, where
  \<open>A[k][c] = exp(-j 2 pi k tdoa[c] / N)\<close>; the delays \<open>[0, 0]\<close> with frame size 4 give
  three bins, each \<open>[[1, 1], [1, 1]]\<close>.
\<close>

theorem freefield_entries:
  assumes "0 < N" and "even N"
  shows "(\<exists>XX. freefield tdoas N = Some XX
     \<and> shape3 XX = (nat (N div 2 + 1), shape1 tdoas, shape1 tdoas)
     \<and> (\<forall>k<nat (N div 2 + 1). \<forall>i<shape1 tdoas. \<forall>j<shape1 tdoas.
           at3 XX k i j = plane_wave tdoas N k i * cnj (plane_wave tdoas N k j)))
   \<and> map_option rows3 (freefield (array1 [0, 0]) 4)
       = Some [[[1, 1], [1, 1]], [[1, 1], [1, 1]], [[1, 1], [1, 1]]]"
proof
  from assms(1) have nz: "N \<noteq> 0" and h: "int_half N = N div 2"
    by (simp_all add: int_half_def)
  from freefield_result [OF nz, of tdoas]
  show "\<exists>XX. freefield tdoas N = Some XX
     \<and> shape3 XX = (nat (N div 2 + 1), shape1 tdoas, shape1 tdoas)
     \<and> (\<forall>k<nat (N div 2 + 1). \<forall>i<shape1 tdoas. \<forall>j<shape1 tdoas.
           at3 XX k i j = plane_wave tdoas N k i * cnj (plane_wave tdoas N k j))"
    by (auto simp: h)
next
  have nz: "(4::int) \<noteq> 0" by simp
  from freefield_result [OF nz, of "array1 [0, 0]"]
  obtain XX where X: "freefield (array1 [0, 0]) 4 = Some XX"
    and sh: "shape3 XX = (nat (int_half 4 + 1), shape1 (array1 [0, 0 :: real]), shape1 (array1 [0, 0 :: real]))"
    and at: "\<And>k i j. at3 XX k i j
        = plane_wave (array1 [0, 0]) 4 k i * cnj (plane_wave (array1 [0, 0]) 4 k j)"
    by blast
  have sh': "shape3 XX = (3, 2, 2)"
    using sh by (simp add: int_half_def array1_def)
  have "rows3 XX = [[[1, 1], [1, 1]], [[1, 1], [1, 1]], [[1, 1], [1, 1]]]"
    by (simp add: rows3_def sh' upt_rec at plane_wave_def array1_def)
  then show "map_option rows3 (freefield (array1 [0, 0]) 4)
       = Some [[[1, 1], [1, 1]], [[1, 1], [1, 1]], [[1, 1], [1, 1]]]"
    unfolding X by simp
qed

theorem freefield_entries_witness:
  "\<exists>XX. freefield (array1 [0, 1]) 2 = Some XX \<and> shape3 XX = (2, 2, 2)
     \<and> at3 XX 1 0 1 = - 1 \<and> at3 XX 1 1 1 = 1"
proof -
  have p: "(0::int) < 2" and e: "even (2::int)" by simp_all
  from freefield_entries [OF p e, of "array1 [0, 1]"]
  obtain XX where X: "freefield (array1 [0, 1]) 2 = Some XX"
    and sh: "shape3 XX = (nat (2 div 2 + 1), shape1 (array1 [0, 1 :: real]), shape1 (array1 [0, 1 :: real]))"
    and at: "\<forall>k<nat (2 div 2 + 1). \<forall>i<shape1 (array1 [0, 1 :: real]). \<forall>j<shape1 (array1 [0, 1 :: real]).
           at3 XX k i j = plane_wave (array1 [0, 1]) 2 k i * cnj (plane_wave (array1 [0, 1]) 2 k j)"
    by blast
  have sh': "shape3 XX = (2, 2, 2)"
    using sh by (simp add: array1_def)
  have pw0: "plane_wave (array1 [0, 1]) 2 1 0 = 1"
    by (simp add: plane_wave_def array1_def)
  have "- \<i> * 2 * complex_of_real pi * of_nat 1 * complex_of_real (at1 (array1 [0, 1]) 1) / of_int 2
      = - (\<i> * complex_of_real pi)"
    by (simp add: array1_def)
  then have pw1: "plane_wave (array1 [0, 1]) 2 1 1 = - 1"
    unfolding plane_wave_def by (simp only: exp_minus exp_pi_i') simp
  from at have a1: "at3 XX 1 0 1
      = plane_wave (array1 [0, 1]) 2 1 0 * cnj (plane_wave (array1 [0, 1]) 2 1 1)"
    and a2: "at3 XX 1 1 1
      = plane_wave (array1 [0, 1]) 2 1 1 * cnj (plane_wave (array1 [0, 1]) 2 1 1)"
    by (simp_all add: array1_def)
  have "at3 XX 1 0 1 = - 1" "at3 XX 1 1 1 = 1"
    unfolding a1 a2 pw0 pw1 by simp_all
  with X sh' show ?thesis by simp
qed


section \<open>Degenerate inputs\<close>

text \<open>
  Claim C9: degenerate inputs raise no error. \<open>scm\<close> on a signal whose masked entries
  are all zero returns the zero matrix at every bin; \<open>freefield\<close> on a vector of zero
  delays (and a positive frame size) returns matrices whose entries are all 1; and
  \<open>rotmat 0 0 0\<close> is the identity matrix.
\<close>

theorem degenerate_inputs_return:
  "(shape3 Xs = (C, F, B)
      \<and> (case Ms of None \<Rightarrow> True | Some M \<Rightarrow> shape3 M = shape3 Xs)
      \<and> (\<forall>i<C. \<forall>f<F. \<forall>b<B. at3 Xs i f b * weight Ms i f b = 0)
    \<longrightarrow> (\<exists>XXs. scm Xs Ms = Inr XXs \<and> shape3 XXs = (B, C, C)
           \<and> (\<forall>b<B. \<forall>i<C. \<forall>j<C. at3 XXs b i j = 0)))
   \<and> (0 < N \<and> (\<forall>c<shape1 tdoas. at1 tdoas c = 0)
    \<longrightarrow> (\<exists>AAs. freefield tdoas N = Some AAs
           \<and> shape3 AAs = (nat (int_half N + 1), shape1 tdoas, shape1 tdoas)
           \<and> (\<forall>k<nat (int_half N + 1). \<forall>i<shape1 tdoas. \<forall>j<shape1 tdoas.
                 at3 AAs k i j = 1)))
   \<and> rows2 (rotmat 0 0 0) = identity3"
proof (intro conjI impI)
  assume a: "shape3 Xs = (C, F, B)
      \<and> (case Ms of None \<Rightarrow> True | Some M \<Rightarrow> shape3 M = shape3 Xs)
      \<and> (\<forall>i<C. \<forall>f<F. \<forall>b<B. at3 Xs i f b * weight Ms i f b = 0)"
  then have s: "shape3 Xs = (C, F, B)"
    and m: "case Ms of None \<Rightarrow> True | Some M \<Rightarrow> shape3 M = shape3 Xs"
    and z: "\<And>i f b. i < C \<Longrightarrow> f < F \<Longrightarrow> b < B \<Longrightarrow> at3 Xs i f b * weight Ms i f b = 0"
    by simp_all
  from scm_same_shape [OF s m]
  obtain XXs where X: "scm Xs Ms = Inr XXs" "shape3 XXs = (B, C, C)"
    and at: "\<And>b i j. b < B \<Longrightarrow> i < C \<Longrightarrow> j < C \<Longrightarrow> at3 XXs b i j =
      (\<Sum>f<F. (at3 Xs i f b * weight Ms i f b) * cnj (at3 Xs j f b * weight Ms j f b))"
    by blast
  have "at3 XXs b i j = 0" if "b < B" "i < C" "j < C" for b i j
    using that by (simp add: at z)
  with X show "\<exists>XXs. scm Xs Ms = Inr XXs \<and> shape3 XXs = (B, C, C)
           \<and> (\<forall>b<B. \<forall>i<C. \<forall>j<C. at3 XXs b i j = 0)"
    by blast
next
  assume a: "0 < N \<and> (\<forall>c<shape1 tdoas. at1 tdoas c = 0)"
  then have nz: "N \<noteq> 0" and z: "\<And>c. c < shape1 tdoas \<Longrightarrow> at1 tdoas c = 0"
    by simp_all
  from freefield_result [OF nz, of tdoas]
  obtain AAs where A: "freefield tdoas N = Some AAs"
    "shape3 AAs = (nat (int_half N + 1), shape1 tdoas, shape1 tdoas)"
    and at: "\<And>k i j. at3 AAs k i j = plane_wave tdoas N k i * cnj (plane_wave tdoas N k j)"
    by blast
  have "at3 AAs k i j = 1" if "i < shape1 tdoas" "j < shape1 tdoas" for k i j
    using that by (simp add: at plane_wave_def z)
  with A show "\<exists>AAs. freefield tdoas N = Some AAs
           \<and> shape3 AAs = (nat (int_half N + 1), shape1 tdoas, shape1 tdoas)
           \<and> (\<forall>k<nat (int_half N + 1). \<forall>i<shape1 tdoas. \<forall>j<shape1 tdoas.
                 at3 AAs k i j = 1)"
    by blast
next
  show "rows2 (rotmat 0 0 0) = identity3"
    by (simp add: rotmat_rows identity3_def)
qed

theorem degenerate_inputs_return_witness:
  "result_rows (scm (zeros3 (2, 3, 2)) None) = Inr [[[0, 0], [0, 0]], [[0, 0], [0, 0]]]
   \<and> map_option rows3 (freefield (array1 [0, 0, 0]) 2)
       = Some [[[1, 1, 1], [1, 1, 1], [1, 1, 1]], [[1, 1, 1], [1, 1, 1], [1, 1, 1]]]
   \<and> rows2 (rotmat 0 0 0) = [[1, 0, 0], [0, 1, 0], [0, 0, 1]]"
proof -
  note d = degenerate_inputs_return [of "zeros3 (2, 3, 2)" 2 3 2 None 2 "array1 [0, 0, 0]"]
  note d1 = d [THEN conjunct1]
  note d2 = d [THEN conjunct2, THEN conjunct1]
  note d3 = d [THEN conjunct2, THEN conjunct2]
  have "shape3 (zeros3 (2, 3, 2) :: complex ndarray3) = (2, 3, 2)
      \<and> (case None :: complex ndarray3 option of None \<Rightarrow> True
          | Some M \<Rightarrow> shape3 M = shape3 (zeros3 (2, 3, 2) :: complex ndarray3))
      \<and> (\<forall>i<2. \<forall>f<3. \<forall>b<2. at3 (zeros3 (2, 3, 2)) i f b * weight None i f b = 0)"
    by (simp add: zeros3_def)
  from mp [OF d1 this]
  obtain XXs where X: "scm (zeros3 (2, 3, 2)) None = Inr XXs" "shape3 XXs = (2, 2, 2)"
    and at: "\<And>b i j. b < 2 \<Longrightarrow> i < 2 \<Longrightarrow> j < 2 \<Longrightarrow> at3 XXs b i j = 0"
    by blast
  have "rows3 XXs = [[[0, 0], [0, 0]], [[0, 0], [0, 0]]]"
    by (simp add: rows3_def X(2) upt_rec at)
  then have one: "result_rows (scm (zeros3 (2, 3, 2)) None)
      = Inr [[[0, 0], [0, 0]], [[0, 0], [0, 0]]]"
    unfolding result_rows_def X(1) by simp
  have "(0::int) < 2 \<and> (\<forall>c<shape1 (array1 [0, 0, 0 :: real]). at1 (array1 [0, 0, 0 :: real]) c = 0)"
    by (simp add: array1_def nth_Cons split: nat.splits)
  from mp [OF d2 this]
  obtain AAs where A: "freefield (array1 [0, 0, 0]) 2 = Some AAs"
    and sh: "shape3 AAs = (nat (int_half 2 + 1), shape1 (array1 [0, 0, 0 :: real]),
               shape1 (array1 [0, 0, 0 :: real]))"
    and ones: "\<forall>k<nat (int_half 2 + 1). \<forall>i<shape1 (array1 [0, 0, 0 :: real]).
                 \<forall>j<shape1 (array1 [0, 0, 0 :: real]). at3 AAs k i j = 1"
    by blast
  have sh': "shape3 AAs = (2, 3, 3)"
    using sh by (simp add: int_half_def array1_def)
  have ones': "\<And>k i j. k < 2 \<Longrightarrow> i < 3 \<Longrightarrow> j < 3 \<Longrightarrow> at3 AAs k i j = 1"
    using ones by (simp add: int_half_def array1_def)
  have "rows3 AAs = [[[1, 1, 1], [1, 1, 1], [1, 1, 1]], [[1, 1, 1], [1, 1, 1], [1, 1, 1]]]"
    by (simp add: rows3_def sh' upt_rec ones')
  then have two: "map_option rows3 (freefield (array1 [0, 0, 0]) 2)
       = Some [[[1, 1, 1], [1, 1, 1], [1, 1, 1]], [[1, 1, 1], [1, 1, 1], [1, 1, 1]]]"
    unfolding A by simp
  from d3 have "rows2 (rotmat 0 0 0) = [[1, 0, 0], [0, 1, 0], [0, 0, 1]]"
    by (simp add: identity3_def)
  with one two show ?thesis by simp
qed

end
